theory Spec2Isabelle
  imports Main "HOL-Library.Sublist"
begin

section \<open>Strings of the host language\<close>

text \<open>
  A JavaScript string is a sequence of UTF-16 code units; a code unit is modelled as an
  integer (from \<open>0\<close> to \<open>0xFFFF\<close> in every real string).  ASCII literals of the source are
  written \<open>js ''...''\<close>; a character outside ASCII is written as its code unit, for example
  \<open>[0x2013]\<close> for the en dash.  Answers reach the marker as strings (the route handler
  passes \<open>clampStr(...)\<close>, which always yields a string), so \<open>String(text || "")\<close> is the
  identity on them and is not written out.
\<close>

type_synonym jsstring = "int list"

definition js :: "string \<Rightarrow> jsstring" where
  "js s = map of_char s"

text \<open>
  \<open>isWhiteSpace\<close> is the ECMAScript set WhiteSpace \<open>\<union>\<close> LineTerminator, which is both what
  \<open>String.prototype.trim\<close> strips and what the regular expression class \<open>\s\<close> matches.
\<close>

definition isWhiteSpace :: "int \<Rightarrow> bool" where
  "isWhiteSpace c \<longleftrightarrow>
     c = 0x09 \<or> c = 0x0A \<or> c = 0x0B \<or> c = 0x0C \<or> c = 0x0D \<or> c = 0x20 \<or> c = 0xA0 \<or>
     c = 0x1680 \<or> (0x2000 \<le> c \<and> c \<le> 0x200A) \<or> c = 0x2028 \<or> c = 0x2029 \<or>
     c = 0x202F \<or> c = 0x205F \<or> c = 0x3000 \<or> c = 0xFEFF"

definition trim :: "jsstring \<Rightarrow> jsstring" where
  "trim s = rev (dropWhile isWhiteSpace (rev (dropWhile isWhiteSpace s)))"

text \<open>
  \<open>splitWs cur s\<close> is \<open>s.split(/\s+/)\<close> with \<open>cur\<close> the piece collected so far: every maximal
  run of white space is one separator, and a separator at either end leaves an empty piece
  there, as in JavaScript (\<open>" a".split(/\s+/)\<close> is \<open>["", "a"]\<close>).
\<close>

function splitWs :: "jsstring \<Rightarrow> jsstring \<Rightarrow> jsstring list" where
  "splitWs cur [] = [cur]"
| "splitWs cur (c # cs) =
     (if isWhiteSpace c then cur # splitWs [] (dropWhile isWhiteSpace cs)
      else splitWs (cur @ [c]) cs)"
  by pat_completeness auto
termination
proof (relation "measure (\<lambda>(cur, s). length s)")
  show "wf (measure (\<lambda>(cur :: jsstring, s :: jsstring). length s))"
    by simp
next
  fix cur :: jsstring and c cs
  have "length (dropWhile isWhiteSpace cs) \<le> length cs"
    by (rule length_dropWhile_le)
  then show "(([], dropWhile isWhiteSpace cs), (cur, c # cs)) \<in> measure (\<lambda>(cur, s). length s)"
    by simp
next
  fix cur :: jsstring and c cs
  show "((cur @ [c], cs), (cur, c # cs)) \<in> measure (\<lambda>(cur, s). length s)"
    by simp
qed

text \<open>
  \<open>toLowerCase\<close> maps code units one by one.  On the code units up to \<open>0xFF\<close> it is the
  mapping of the runtime: the capitals of ASCII and of Latin-1 gain \<open>0x20\<close>, the
  multiplication sign \<open>0xD7\<close> does not.  The case tables of the runtime beyond Latin-1 are
  not part of this repository and are not modelled: a code unit above \<open>0xFF\<close> is left as
  it is.  All triggers of the rubric are ASCII, so model and program agree on every
  answer in which the runtime's \<open>toLowerCase\<close> changes no code unit above \<open>0xFF\<close>.
\<close>

definition lowerUnit :: "int \<Rightarrow> int" where
  "lowerUnit c =
     (if (0x41 \<le> c \<and> c \<le> 0x5A) \<or> (0xC0 \<le> c \<and> c \<le> 0xDE \<and> c \<noteq> 0xD7) then c + 0x20 else c)"

definition toLowerCase :: "jsstring \<Rightarrow> jsstring" where
  "toLowerCase s = map lowerUnit s"

text \<open>
  \<open>includesStr t n\<close> is \<open>t.includes(n)\<close>: \<open>n\<close> occurs in \<open>t\<close> as a contiguous substring,
  that is, \<open>n\<close> is a prefix of \<open>t\<close> or of one of its suffixes.
\<close>

fun includesStr :: "jsstring \<Rightarrow> jsstring \<Rightarrow> bool" where
  "includesStr [] n = (n = [])"
| "includesStr (c # cs) n = (prefix n (c # cs) \<or> includesStr cs n)"

section \<open>Marking helpers (identical in both copies of the server)\<close>

definition wordCount :: "jsstring \<Rightarrow> nat" where
  "wordCount text =
     (let t = trim text in
      if t = [] then 0
      else length (filter (\<lambda>w. w \<noteq> []) (splitWs [] t)))"

definition hasAny :: "jsstring \<Rightarrow> jsstring list \<Rightarrow> bool" where
  "hasAny text needles = (let t = toLowerCase text in list_ex (\<lambda>n. includesStr t n) needles)"

section \<open>The word count as the specification words it\<close>

text \<open>
  The specification describes the count as 0 when the trimmed input is empty and
  otherwise the number of maximal runs of characters that are not white space.  A run
  starts at every index that holds such a character and is either index 0 or preceded by
  white space; \<open>maximalRuns\<close> counts these indices, and \<open>wordCount_spec\<close> is the description.
\<close>

definition maximalRuns :: "jsstring \<Rightarrow> nat" where
  "maximalRuns s =
     length (filter (\<lambda>i. \<not> isWhiteSpace (s ! i) \<and> (i = 0 \<or> isWhiteSpace (s ! (i - 1))))
               [0..<length s])"

definition wordCount_spec :: "jsstring \<Rightarrow> nat" where
  "wordCount_spec text = (if trim text = [] then 0 else maximalRuns text)"

text \<open>
  Two devices for the proofs: \<open>runStarts p\<close> is \<open>maximalRuns\<close> with \<open>p\<close> saying whether a run
  may start at index 0, and \<open>countRuns p\<close> counts the same run starts in one pass.
\<close>

definition runStarts :: "bool \<Rightarrow> jsstring \<Rightarrow> nat" where
  "runStarts p s =
     length (filter (\<lambda>i. \<not> isWhiteSpace (s ! i) \<and> (if i = 0 then p else isWhiteSpace (s ! (i - 1))))
               [0..<length s])"

fun countRuns :: "bool \<Rightarrow> jsstring \<Rightarrow> nat" where
  "countRuns p [] = 0"
| "countRuns p (c # cs) =
     (if isWhiteSpace c then countRuns True cs
      else (if p then 1 else 0) + countRuns False cs)"

section \<open>Task content\<close>

definition MODEL_ANSWER :: jsstring where
  "MODEL_ANSWER =
     js ''1. Key ethical or legal failures'' @
     [10, 10] @
     js ''One major failure was the use of facial recognition without clear '' @
     js ''public consent or transparency. Residents were not properly informed '' @
     js ''about how their data would be collected or used. A second failure '' @
     js ''was the lack of sufficient testing for bias and accuracy before '' @
     js ''deployment, which increased the risk of misidentification.'' @
     [10, 10] @
     js ''2. Why these failures mattered'' @
     [10, 10] @
     js ''These failures mattered because facial recognition can directly '' @
     js ''affect people'' @
     [0x2019] @
     js ''s rights and wellbeing. Individuals could be wrongly identified, '' @
     js ''questioned, or monitored, causing stress and harm. The lack of transparency '' @
     js ''also damaged public trust, as people felt watched rather than protected. '' @
     js ''When AI systems are introduced without openness or safeguards, they '' @
     js ''risk reinforcing unfairness and discrimination, particularly for '' @
     js ''certain groups.'' @
     [10, 10] @
     js ''3. What should have been done differently'' @
     [10, 10] @
     js ''First, the council should have completed a Data Protection Impact '' @
     js ''Assessment (DPIA) and clearly explained the system to the public, '' @
     js ''including how data would be stored and protected. Second, the system '' @
     js ''should have been independently tested for bias and accuracy before '' @
     js ''use, with clear limits on where and when it could operate. These '' @
     js ''steps would have supported fairer, more responsible use of AI.''"

record frameworkEntry =
  expectation :: jsstring
  caseText :: jsstring

record frameworkTable =
  gdpr :: frameworkEntry
  unesco :: frameworkEntry
  ofsted :: frameworkEntry
  jisc :: frameworkEntry

text \<open>The field \<open>case\<close> of the source is \<open>caseText\<close> here.\<close>

definition FRAMEWORK :: frameworkTable where
  "FRAMEWORK = \<lparr>
     gdpr = \<lparr>
       expectation =
         js ''UK GDPR Article 5 '' @
         [0x2013] @
         js '' Lawfulness, fairness and transparency (data protection principles).'',
       caseText =
         js ''SmartTown'' @
         [0x2019] @
         js ''s use of biometric data without clear public transparency or lawful '' @
         js ''basis shows what can go wrong when personal data is processed without '' @
         js ''clear safeguards.'' \<rparr>,
     unesco = \<lparr>
       expectation =
         js ''UNESCO Recommendation on the Ethics of Artificial Intelligence (adopted '' @
         js ''2021) '' @
         [0x2013] @
         js '' human rights, dignity, transparency and fairness across the AI '' @
         js ''lifecycle.'',
       caseText =
         js ''The case illustrates how facial recognition can undermine rights '' @
         js ''and dignity when it is not transparent, not accountable, or produces '' @
         js ''biased outcomes.'' \<rparr>,
     ofsted = \<lparr>
       expectation =
         js ''Ofsted '' @
         [0x2013] @
         js '' expectations for responsible use of technology/AI: ethical, safe, '' @
         js ''transparent practice and management of risks (e.g., bias, fairness, '' @
         js ''data protection).'',
       caseText =
         js ''SmartTown lacked transparency and safeguards, highlighting why organisations '' @
         js ''must evaluate risks and ensure AI is used responsibly and fairly.'' \<rparr>,
     jisc = \<lparr>
       expectation =
         js ''Jisc '' @
         [0x2013] @
         js '' principles for responsible AI use in education: fair, safe, accountable '' @
         js ''and transparent deployment.'',
       caseText =
         js ''The case shows why risk assessment, fairness checks, and clear governance '' @
         js ''matter before deploying AI that affects people.'' \<rparr> \<rparr>"

section \<open>Rubric detection themes\<close>

record theme =
  key :: jsstring
  hits :: "jsstring list"

definition FAILURE_THEMES :: "theme list" where
  "FAILURE_THEMES = [
     \<lparr>key = js ''consent/transparency'',
       hits = map js [''consent'', ''transparent'', ''transparency'', ''informed'', ''notice'', ''public informed'']\<rparr>,
     \<lparr>key = js ''gdpr/lawful basis'',
       hits = map js [''gdpr'', ''lawful'', ''lawful basis'', ''data protection'', ''dpa'', ''privacy'']\<rparr>,
     \<lparr>key = js ''bias/fairness'',
       hits = map js [''bias'', ''biased'', ''fair'', ''fairness'', ''discrimin'', ''equal'']\<rparr>,
     \<lparr>key = js ''accuracy/misidentification'',
       hits = map js [''accur'', ''misidentif'', ''false positive'', ''false negative'', ''wrongly'']\<rparr>,
     \<lparr>key = js ''security/storage'',
       hits = map js [''secure'', ''security'', ''stored'', ''storage'', ''breach'', ''access control'', ''encryption'']\<rparr>,
     \<lparr>key = js ''dpia/governance'',
       hits = map js [''dpia'', ''impact assessment'', ''governance'', ''oversight'', ''audit'']\<rparr>]"

definition REC_THEMES :: "jsstring list list" where
  "REC_THEMES = [
     map js [''dpia'', ''impact assessment''],
     map js [''consent'', ''transparen'', ''public notice''],
     map js [''bias'', ''fairness testing'', ''independent testing''],
     map js [''accuracy testing'', ''pilot'', ''validate''],
     map js [''data minim'', ''retention'', ''delete''],
     map js [''security'', ''access control'', ''encryption''],
     map js [''limits'', ''where'', ''when'', ''policy'', ''governance'']]"

text \<open>
  In \<open>src/server.js\<close> the failure themes are a local constant of the marker; its
  security theme has no \<open>encryption\<close> trigger.  Its \<open>recThemes\<close> is the list \<open>REC_THEMES\<close>.
\<close>

definition failureThemes_server :: "theme list" where
  "failureThemes_server = [
     \<lparr>key = js ''consent/transparency'',
       hits = map js [''consent'', ''transparent'', ''transparency'', ''informed'', ''notice'', ''public informed'']\<rparr>,
     \<lparr>key = js ''gdpr/lawful basis'',
       hits = map js [''gdpr'', ''lawful'', ''lawful basis'', ''data protection'', ''dpa'', ''privacy'']\<rparr>,
     \<lparr>key = js ''bias/fairness'',
       hits = map js [''bias'', ''biased'', ''fair'', ''fairness'', ''discrimin'', ''equal'']\<rparr>,
     \<lparr>key = js ''accuracy/misidentification'',
       hits = map js [''accur'', ''misidentif'', ''false positive'', ''false negative'', ''wrongly'']\<rparr>,
     \<lparr>key = js ''security/storage'',
       hits = map js [''secure'', ''security'', ''stored'', ''storage'', ''breach'', ''access control'']\<rparr>,
     \<lparr>key = js ''dPIA/governance'',
       hits = map js [''dpia'', ''impact assessment'', ''governance'', ''oversight'', ''audit'']\<rparr>]"

section \<open>Status helpers\<close>

definition statusFromLevel :: "int \<Rightarrow> jsstring" where
  "statusFromLevel lv =
     (if lv \<ge> 2 then [0x2713] @ js '' Secure''
      else if lv = 1 then [0x25D0] @ js '' Developing''
      else [0x2717] @ js '' Missing'')"

definition tagStatus :: "int \<Rightarrow> jsstring" where
  "tagStatus lv =
     (if lv \<ge> 2 then js ''ok''
      else if lv = 1 then js ''mid''
      else js ''bad'')"

section \<open>Counting the action markers\<close>

text \<open>
  \<open>actionMarkers\<close> is the number of matches of
  \<open>/\baction\b|\bshould\b|\bmust\b|\bneed to\b|\brecommend\b/gi\<close> in the answer as typed.
  Word characters are \<open>[A-Za-z0-9_]\<close>.  Without the \<open>u\<close> flag, case-insensitive matching
  never identifies a code unit from \<open>0x80\<close> on with an ASCII one, so against these ASCII
  patterns only ASCII letters are folded.  The matcher scans from left to right; \<open>a\<close> says
  whether the code unit before the current position is a word character.
\<close>

definition isWordChar :: "int \<Rightarrow> bool" where
  "isWordChar c \<longleftrightarrow>
     (0x30 \<le> c \<and> c \<le> 0x39) \<or> (0x41 \<le> c \<and> c \<le> 0x5A) \<or> c = 0x5F \<or> (0x61 \<le> c \<and> c \<le> 0x7A)"

definition canonicalize :: "int \<Rightarrow> int" where
  "canonicalize c = (if 0x61 \<le> c \<and> c \<le> 0x7A then c - 0x20 else c)"

definition wordBoundary :: "bool \<Rightarrow> jsstring \<Rightarrow> bool" where
  "wordBoundary a rest \<longleftrightarrow> a \<noteq> (case rest of [] \<Rightarrow> False | c # _ \<Rightarrow> isWordChar c)"

text \<open>
  \<open>matchChars a w rest\<close> matches the characters of \<open>w\<close> at the beginning of \<open>rest\<close>, ignoring
  case, and returns what is left of the input together with the flag for the last code
  unit consumed.  \<open>matchWord\<close> is one alternative \<open>\bw\b\<close>, \<open>matchHere\<close> the whole pattern at
  one position: the first alternative that matches wins.
\<close>

fun matchChars :: "bool \<Rightarrow> jsstring \<Rightarrow> jsstring \<Rightarrow> (bool \<times> jsstring) option" where
  "matchChars a [] rest = Some (a, rest)"
| "matchChars a (p # ps) [] = None"
| "matchChars a (p # ps) (c # cs) =
     (if canonicalize c = canonicalize p then matchChars (isWordChar c) ps cs else None)"

definition matchWord :: "bool \<Rightarrow> jsstring \<Rightarrow> jsstring \<Rightarrow> (bool \<times> jsstring) option" where
  "matchWord a w rest =
     (if wordBoundary a rest then
        (case matchChars a w rest of
           None \<Rightarrow> None
         | Some (a', rest') \<Rightarrow> if wordBoundary a' rest' then Some (a', rest') else None)
      else None)"

definition ACTION_WORDS :: "jsstring list" where
  "ACTION_WORDS = map js [''action'', ''should'', ''must'', ''need to'', ''recommend'']"

fun matchAlternatives :: "bool \<Rightarrow> jsstring list \<Rightarrow> jsstring \<Rightarrow> (bool \<times> jsstring) option" where
  "matchAlternatives a [] rest = None"
| "matchAlternatives a (w # ws) rest =
     (case matchWord a w rest of
        Some m \<Rightarrow> Some m
      | None \<Rightarrow> matchAlternatives a ws rest)"

definition matchHere :: "bool \<Rightarrow> jsstring \<Rightarrow> (bool \<times> jsstring) option" where
  "matchHere a rest = matchAlternatives a ACTION_WORDS rest"

text \<open>
  \<open>countMatches\<close> is the loop of \<open>String.prototype.match\<close> with the \<open>g\<close> flag: after a match
  the search resumes where the match ended, or one code unit further when the match was
  empty; where nothing matches it moves on by one code unit, up to and including the end
  of the string.
\<close>

function countMatches :: "bool \<Rightarrow> jsstring \<Rightarrow> nat" where
  "countMatches a [] = (case matchHere a [] of None \<Rightarrow> 0 | Some m \<Rightarrow> 1)"
| "countMatches a (c # cs) =
     (case matchHere a (c # cs) of
        None \<Rightarrow> countMatches (isWordChar c) cs
      | Some (a', rest') \<Rightarrow>
          if length rest' < length (c # cs) then Suc (countMatches a' rest')
          else Suc (countMatches (isWordChar c) cs))"
  by pat_completeness auto
termination
  by (relation "measure (\<lambda>(a, s). length s)") auto

definition actionMarkers :: "jsstring \<Rightarrow> nat" where
  "actionMarkers answerText = countMatches False answerText"

section \<open>The five criteria (src/unnamed/part_001)\<close>

text \<open>
  The marker adds each criterion's marks to \<open>score\<close>, records its level and pushes its
  improvement note; a criterion is modelled by the three things it contributes.  The
  argument \<open>t\<close> is the lower-cased answer.
\<close>

record criterion =
  points :: int
  level :: int
  noteList :: "jsstring list"

definition themesFound :: "jsstring \<Rightarrow> nat" where
  "themesFound t = foldl (\<lambda>n th. if hasAny t (hits th) then n + 1 else n) 0 FAILURE_THEMES"

definition markFailures :: "jsstring \<Rightarrow> criterion" where
  "markFailures t =
     (if themesFound t \<ge> 2 then \<lparr>points = 3, level = 2, noteList = []\<rparr>
      else if themesFound t = 1 then \<lparr>points = 1, level = 1, noteList = [
         js ''Failures: Identify two clear ethical/legal failures (not just one).'']\<rparr>
      else \<lparr>points = 0, level = 0, noteList = [
         js ''Failures: Identify two clear ethical/legal failures.'']\<rparr>)"

definition mentionsIndividuals :: "jsstring \<Rightarrow> bool" where
  "mentionsIndividuals t = hasAny t (map js [''individual'', ''people'', ''resident'', ''person'', ''community''])"

definition mentionsHarm :: "jsstring \<Rightarrow> bool" where
  "mentionsHarm t = hasAny t (map js [''harm'', ''stress'', ''wrongly'', ''misidentif'', ''discrimin'', ''unfair'', ''rights''])"

definition mentionsTrust :: "jsstring \<Rightarrow> bool" where
  "mentionsTrust t = hasAny t (map js [''trust'', ''confidence'', ''public trust'', ''reputation'', ''legitimacy''])"

definition mentionsFairness :: "jsstring \<Rightarrow> bool" where
  "mentionsFairness t = hasAny t (map js [''fairness'', ''discrimin'', ''unfair'', ''equal''])"

definition markImpact :: "jsstring \<Rightarrow> criterion" where
  "markImpact t =
     (if (mentionsIndividuals t \<and> mentionsHarm t) \<and> (mentionsTrust t \<or> mentionsFairness t)
      then \<lparr>points = 3, level = 2, noteList = []\<rparr>
      else if (mentionsIndividuals t \<and> mentionsHarm t) \<or> mentionsTrust t \<or> mentionsFairness t
      then \<lparr>points = 2, level = 1, noteList = []\<rparr>
      else \<lparr>points = 1, level = 0, noteList = [
         js ''Impact: Explain why the failures mattered (harm to people and/or '' @
         js ''trust/fairness).'']\<rparr>)"

definition recHits :: "jsstring \<Rightarrow> nat" where
  "recHits t = foldl (\<lambda>n hs. if hasAny t hs then n + 1 else n) 0 REC_THEMES"

definition markRecommendations :: "jsstring \<Rightarrow> jsstring \<Rightarrow> criterion" where
  "markRecommendations t answerText =
     (if recHits t \<ge> 2 \<and> actionMarkers answerText \<ge> 2 then \<lparr>points = 2, level = 2, noteList = []\<rparr>
      else if recHits t \<ge> 1 then \<lparr>points = 1, level = 1, noteList = [
         js ''Recommendations: Give two practical actions the council should take '' @
         js ''(not vague).'']\<rparr>
      else \<lparr>points = 0, level = 0, noteList = [
         js ''Recommendations: Provide two practical actions the council should '' @
         js ''take.'']\<rparr>)"

definition usesTerms :: "jsstring \<Rightarrow> bool" where
  "usesTerms t = hasAny t (map js [''gdpr'', ''dpia'', ''data protection'', ''privacy'', ''consent'', ''bias'', ''fairness'', ''transparency''])"

definition markLanguage :: "jsstring \<Rightarrow> criterion" where
  "markLanguage t =
     (if usesTerms t then \<lparr>points = 1, level = 2, noteList = []\<rparr>
      else \<lparr>points = 0, level = 0, noteList = [
         js ''Language: Use at least one key term (e.g., GDPR, consent, bias, '' @
         js ''transparency, DPIA).'']\<rparr>)"

definition hasStructure :: "jsstring \<Rightarrow> bool" where
  "hasStructure t \<longleftrightarrow>
     hasAny t (map js [''failure 1'', ''failure 2'']) \<or>
     hasAny t (map js [''1)'', ''2)'', ''3)'']) \<or>
     hasAny t (map js [''key ethical'', ''why these failures'', ''what should have''])"

definition markStructure :: "jsstring \<Rightarrow> criterion" where
  "markStructure t =
     (if hasStructure t then \<lparr>points = 1, level = 2, noteList = []\<rparr>
      else \<lparr>points = 0, level = 1, noteList = [
         js ''Structure: Use the template headings so your evaluation is easy '' @
         js ''to follow.'']\<rparr>)"

definition lengthNotes :: "nat \<Rightarrow> jsstring list" where
  "lengthNotes wc =
     (if wc < 100 then [
         js ''Length: Aim for 100'' @
         [0x2013] @
         js ''250 words (yours is a bit short).''] else []) @
     (if wc > 250 then [
         js ''Length: Aim for 100'' @
         [0x2013] @
         js ''250 words (yours is a bit long).''] else [])"

fun join :: "jsstring \<Rightarrow> jsstring list \<Rightarrow> jsstring" where
  "join sep [] = []"
| "join sep [x] = x"
| "join sep (x # y # ys) = x @ sep @ join sep (y # ys)"

definition buildFeedback :: "jsstring list \<Rightarrow> jsstring" where
  "buildFeedback ns =
     (if length ns = 0 then
         js ''Strong response '' @
         [0x2014] @
         js '' you identified key issues, explained impact, and gave practical '' @
         js ''improvements.''
      else js ''To improve:'' @ [10] @ js ''- '' @ join ([10] @ js ''- '') ns)"

definition gateMessage :: jsstring where
  "gateMessage =
     js ''Please add to your answer.'' @
     [10] @
     js ''This response is too short to demonstrate evaluation.'' @
     [10] @
     js ''Aim for 100'' @
     [0x2013] @
     js ''250 words and address all parts of the question.''"

section \<open>The marker of src/unnamed/part_001\<close>

record tag =
  name :: jsstring
  status :: jsstring

record gridRows =
  ethical :: jsstring
  impact :: jsstring
  legal :: jsstring
  recs :: jsstring
  structure' :: jsstring

text \<open>
  One record serves the results of both copies.  A field that is \<open>null\<close> or that the
  returned object does not have is \<open>None\<close>.  The field \<open>wordCount\<close> is \<open>wordCount'\<close> and
  the grid row \<open>structure\<close> is \<open>structure'\<close>.
\<close>

record result =
  gated :: bool
  wordCount' :: nat
  message :: "jsstring option"
  score :: "int option"
  bands :: "unit option"
  feedback :: "jsstring option"
  strengths :: "jsstring list option"
  tags :: "tag list option"
  grid :: "gridRows option"
  framework :: "frameworkTable option"
  modelAnswer :: "jsstring option"

definition gatedResult :: "nat \<Rightarrow> result" where
  "gatedResult wc =
     \<lparr>gated = True, wordCount' = wc, message = Some gateMessage, score = None, bands = None,
      feedback = None, strengths = None, tags = None, grid = None, framework = None,
      modelAnswer = None\<rparr>"

definition rawScore :: "jsstring \<Rightarrow> int" where
  "rawScore answerText =
     (let t = toLowerCase answerText in
      0 + points (markFailures t) + points (markImpact t) + points (markRecommendations t answerText) +
      points (markLanguage t) + points (markStructure t))"

definition buildStrengths :: "jsstring \<Rightarrow> jsstring \<Rightarrow> jsstring list" where
  "buildStrengths t answerText =
     (if level (markFailures t) \<ge> 2 then [
         js ''You identified at least two relevant ethical/legal failures.''] else []) @
     (if level (markImpact t) \<ge> 1 then [
         js ''You explained why the issues matter for people and/or public trust.''] else []) @
     (if level (markRecommendations t answerText) \<ge> 1 then [
         js ''You suggested practical actions to improve responsible use of AI.''] else []) @
     (if usesTerms t then [
         js ''You used appropriate ethical/legal terms (e.g., consent, bias, GDPR).''] else []) @
     (if hasStructure t then [
         js ''Your response followed a clear structure, which makes your evaluation '' @
         js ''easy to follow.''] else [])"

definition buildTags :: "jsstring \<Rightarrow> jsstring \<Rightarrow> tag list" where
  "buildTags t answerText =
     (let failuresLevel = level (markFailures t);
          impactLevel = level (markImpact t);
          recsLevel = level (markRecommendations t answerText);
          legalLevel = level (markLanguage t);
          structureLevel = level (markStructure t)
      in [
       \<lparr>name = js ''Ethical awareness'',
        status = tagStatus (min 2 (max failuresLevel impactLevel))\<rparr>,
       \<lparr>name = js ''Legal awareness'',
        status = tagStatus (if legalLevel \<ge> 2 then 2
                            else if hasAny t (map js [''consent'', ''privacy'', ''data protection'']) then 1
                            else 0)\<rparr>,
       \<lparr>name = js ''Impact evaluation'',
        status = tagStatus (if impactLevel \<ge> 2 then 2 else if impactLevel = 1 then 1 else 0)\<rparr>,
       \<lparr>name = js ''Practical judgement'',
        status = tagStatus (if recsLevel \<ge> 2 then 2 else if recsLevel = 1 then 1 else 0)\<rparr>,
       \<lparr>name = js ''Structure & clarity'',
        status = tagStatus (if structureLevel \<ge> 2 then 2 else if structureLevel = 1 then 1 else 0)\<rparr>])"

definition buildGrid :: "jsstring \<Rightarrow> jsstring \<Rightarrow> gridRows" where
  "buildGrid t answerText =
     (let failuresLevel = level (markFailures t);
          impactLevel = level (markImpact t);
          recsLevel = level (markRecommendations t answerText);
          legalLevel = level (markLanguage t);
          structureLevel = level (markStructure t)
      in \<lparr>ethical = statusFromLevel failuresLevel,
          impact = statusFromLevel (if impactLevel \<ge> 2 then 2 else if impactLevel = 1 then 1 else 0),
          legal = statusFromLevel (if legalLevel \<ge> 2 then 2 else if usesTerms t then 1 else 0),
          recs = statusFromLevel recsLevel,
          structure' = statusFromLevel structureLevel\<rparr>)"

definition markEthicsResponse :: "jsstring \<Rightarrow> result" where
  "markEthicsResponse answerText =
     (let wc = wordCount answerText in
      if wc < 50 then gatedResult wc
      else
        let t = toLowerCase answerText;
            ns = noteList (markFailures t) @ noteList (markImpact t) @
                 noteList (markRecommendations t answerText) @ noteList (markLanguage t) @
                 noteList (markStructure t) @ lengthNotes wc;
            sc = max 0 (min 10 (rawScore answerText));
            strengthsTop = take 3 (buildStrengths t answerText)
        in \<lparr>gated = False, wordCount' = wc, message = None, score = Some sc, bands = None,
            feedback = Some (buildFeedback ns), strengths = Some strengthsTop,
            tags = Some (buildTags t answerText), grid = Some (buildGrid t answerText),
            framework = Some FRAMEWORK, modelAnswer = Some MODEL_ANSWER\<rparr>)"

section \<open>The marker of src/server.js\<close>

text \<open>
  This copy records no levels and returns neither strengths, tags, grid nor framework.
  Its failure themes are \<open>failureThemes_server\<close>, and its impact rule tests fairness only in
  the three-mark branch, with a shorter trigger list.  Recommendations, language,
  structure, the length notes, the clamp and the feedback are the same statements as in
  the other copy, so their marks and notes are taken from the definitions above.
\<close>

definition themesFound_server :: "jsstring \<Rightarrow> nat" where
  "themesFound_server t =
     foldl (\<lambda>n th. if hasAny t (hits th) then n + 1 else n) 0 failureThemes_server"

definition markFailures_server :: "jsstring \<Rightarrow> int \<times> jsstring list" where
  "markFailures_server t =
     (if themesFound_server t \<ge> 2 then (3, [])
      else if themesFound_server t = 1 then (1, [
         js ''Failures: Identify two clear ethical/legal failures (not just one).''])
      else (0, [
         js ''Failures: Identify two clear ethical/legal failures.'']))"

definition markImpact_server :: "jsstring \<Rightarrow> int \<times> jsstring list" where
  "markImpact_server t =
     (if (mentionsIndividuals t \<and> mentionsHarm t) \<and>
         (mentionsTrust t \<or> hasAny t (map js [''fairness'', ''discrimin'', ''unfair'']))
      then (3, [])
      else if (mentionsIndividuals t \<and> mentionsHarm t) \<or> mentionsTrust t then (2, [])
      else (1, [
         js ''Impact: Explain why the failures mattered (harm to people and/or '' @
         js ''trust/fairness).'']))"

definition rawScore_server :: "jsstring \<Rightarrow> int" where
  "rawScore_server answerText =
     (let t = toLowerCase answerText in
      0 + fst (markFailures_server t) + fst (markImpact_server t) +
      points (markRecommendations t answerText) + points (markLanguage t) + points (markStructure t))"

definition gatedResult_server :: "nat \<Rightarrow> result" where
  "gatedResult_server wc =
     \<lparr>gated = True, wordCount' = wc, message = Some gateMessage, score = None, bands = None,
      feedback = None, strengths = None, tags = None, grid = None, framework = None,
      modelAnswer = None\<rparr>"

definition markEthicsResponse_server :: "jsstring \<Rightarrow> result" where
  "markEthicsResponse_server answerText =
     (let wc = wordCount answerText in
      if wc < 50 then gatedResult_server wc
      else
        let t = toLowerCase answerText;
            ns = snd (markFailures_server t) @ snd (markImpact_server t) @
                 noteList (markRecommendations t answerText) @ noteList (markLanguage t) @
                 noteList (markStructure t) @ lengthNotes wc;
            sc = max 0 (min 10 (rawScore_server answerText))
        in \<lparr>gated = False, wordCount' = wc, message = None, score = Some sc, bands = None,
            feedback = Some (buildFeedback ns), strengths = None, tags = None, grid = None,
            framework = None, modelAnswer = Some MODEL_ANSWER\<rparr>)"

section \<open>The keywords of the specification's scenario\<close>

definition scenarioKeywords :: "jsstring list" where
  "scenarioKeywords =
     map js [''consent'', ''transparency'', ''bias'', ''fairness'', ''trust'', ''residents'',
             ''DPIA'', ''action'', ''should'', ''1)'', ''2)'', ''3)'']"

section \<open>Example answers\<close>

text \<open>Fifty one-letter words: no rubric keyword and no structure marker.\<close>

definition plainAnswer :: jsstring where
  "plainAnswer =
     js ''a a a a a a a a a a a a a a a a a a a a a a a a a a a a a a a a a a a a a a a a a a a a a a a a a a''"

text \<open>A sentence that triggers the consent/transparency and the governance theme only.\<close>

definition twoThemeSentence :: jsstring where
  "twoThemeSentence = js '' informed audit''"

text \<open>Fifty words, the last of them \<open>fairness\<close>.\<close>

definition fairnessAnswer :: jsstring where
  "fairnessAnswer =
     js ''a a a a a a a a a a a a a a a a a a a a a a a a a a a a a a a a a a a a a a a a a a a a a a a a a fairness''"


text \<open>
  Sixty words holding every keyword of the scenario of the specification, with \<open>action\<close>
  and \<open>should\<close> as whole words, and no word about harm.
\<close>

definition scenarioAnswer :: jsstring where
  "scenarioAnswer =
     js ''a a a a a a a a a a a a a a a a a a a a a a a a a a a a a a a a a a a a a a a a a a a a a a a a 1) consent transparency bias fairness trust residents DPIA action should 2) 3)''"

text \<open>Sixty words: the same keywords and the word \<open>harm\<close>.\<close>

definition fullMarksAnswer :: jsstring where
  "fullMarksAnswer =
     js ''a a a a a a a a a a a a a a a a a a a a a a a a a a a a a a a a a a a a a a a a a a a a a a a 1) consent transparency bias fairness trust residents harm DPIA action should 2) 3)''"

text \<open>
  Sixty words: the same keywords and \<open>harm\<close>, but \<open>action\<close> and \<open>should\<close> only inside
  longer words.
\<close>

definition substringAnswer :: jsstring where
  "substringAnswer =
     js ''a a a a a a a a a a a a a a a a a a a a a a a a a a a a a a a a a a a a a a a a a a a a a a a 1) consent transparency bias fairness trust residents harm DPIA actions shoulder 2) 3)''"

section \<open>Word counting\<close>

lemma countRuns_ws_prefix:
  "list_all isWhiteSpace w \<Longrightarrow>
   countRuns p (w @ s) = (if w = [] then countRuns p s else countRuns True s)"
  by (induction w arbitrary: p) auto

lemma countRuns_append:
  "countRuns p (a @ b) =
   countRuns p a + countRuns (if a = [] then p else isWhiteSpace (last a)) b"
  by (induction a arbitrary: p) auto

lemma countRuns_ws: "list_all isWhiteSpace w \<Longrightarrow> countRuns p w = 0"
  by (induction w arbitrary: p) auto

lemma countRuns_dropWhile: "countRuns True (dropWhile isWhiteSpace s) = countRuns True s"
  by (induction s) auto

lemma splitWs_count:
  "length (filter (\<lambda>w. w \<noteq> []) (splitWs cur s)) =
   (if cur \<noteq> [] then 1 + countRuns False s else countRuns True s)"
  by (induction cur s rule: splitWs.induct) (auto simp: countRuns_dropWhile)

lemma trim_decomp:
  "\<exists>l r. s = l @ trim s @ r \<and> list_all isWhiteSpace l \<and> list_all isWhiteSpace r"
proof -
  let ?l = "takeWhile isWhiteSpace s"
  let ?m = "dropWhile isWhiteSpace s"
  let ?r = "rev (takeWhile isWhiteSpace (rev ?m))"
  have m: "?m = trim s @ ?r"
  proof -
    have e: "takeWhile isWhiteSpace (rev ?m) @ dropWhile isWhiteSpace (rev ?m) = rev ?m"
      by (rule takeWhile_dropWhile_id)
    have "rev (takeWhile isWhiteSpace (rev ?m) @ dropWhile isWhiteSpace (rev ?m)) = rev (rev ?m)"
      by (rule arg_cong [OF e])
    then show ?thesis
      unfolding rev_append rev_rev_ident trim_def by (rule sym)
  qed
  have "s = ?l @ ?m"
    by simp
  with m have "s = ?l @ trim s @ ?r"
    by simp
  moreover have "list_all isWhiteSpace ?l"
    by (simp add: list_all_iff) (meson set_takeWhileD)
  moreover have "list_all isWhiteSpace ?r"
    by (simp add: list_all_iff) (meson set_takeWhileD)
  ultimately show ?thesis
    by blast
qed

lemma countRuns_pad:
  assumes "list_all isWhiteSpace l" and "list_all isWhiteSpace r"
  shows "countRuns True (l @ s @ r) = countRuns True s"
proof -
  have "countRuns True (l @ s @ r) = countRuns True (s @ r)"
    using assms(1) by (simp add: countRuns_ws_prefix)
  also have "\<dots> = countRuns True s"
    using assms(2) by (simp add: countRuns_append countRuns_ws)
  finally show ?thesis .
qed

lemma countRuns_trim: "countRuns True (trim s) = countRuns True s"
proof -
  obtain l r where d: "s = l @ trim s @ r" "list_all isWhiteSpace l" "list_all isWhiteSpace r"
    using trim_decomp by blast
  have "countRuns True s = countRuns True (l @ trim s @ r)"
    using d(1) by simp
  also have "\<dots> = countRuns True (trim s)"
    using d(2,3) by (rule countRuns_pad)
  finally show ?thesis by simp
qed

lemma wordCount_countRuns: "wordCount s = countRuns True s"
proof (cases "trim s = []")
  case True
  have "countRuns True s = countRuns True (trim s)"
    by (simp add: countRuns_trim)
  also have "\<dots> = 0"
    using True by simp
  finally have "countRuns True s = 0" .
  moreover have "wordCount s = 0"
    using True by (simp add: wordCount_def)
  ultimately show ?thesis
    by simp
next
  case False
  then show ?thesis
    by (simp add: wordCount_def Let_def splitWs_count countRuns_trim)
qed

lemma upt_shift: "[0..<Suc n] = 0 # map Suc [0..<n]"
  by (simp add: upt_conv_Cons map_Suc_upt del: upt_Suc)

lemma runStarts_Cons:
  "runStarts p (c # cs) =
   (if \<not> isWhiteSpace c \<and> p then 1 else 0) + runStarts (isWhiteSpace c) cs"
proof -
  have "runStarts p (c # cs) =
    length (filter (\<lambda>i. \<not> isWhiteSpace ((c # cs) ! i) \<and>
                (if i = 0 then p else isWhiteSpace ((c # cs) ! (i - 1))))
              (0 # map Suc [0..<length cs]))"
    unfolding runStarts_def by (simp only: length_Cons upt_shift)
  also have "\<dots> = (if \<not> isWhiteSpace c \<and> p then 1 else 0) +
    length (filter (\<lambda>i. \<not> isWhiteSpace (cs ! i) \<and>
                (if i = 0 then isWhiteSpace c else isWhiteSpace (cs ! (i - 1))))
              [0..<length cs])"
    by (auto simp: filter_map o_def nth_Cons' intro!: arg_cong [where f = length] filter_cong)
  finally show ?thesis
    by (simp add: runStarts_def)
qed

lemma runStarts_countRuns: "runStarts p s = countRuns p s"
proof (induction s arbitrary: p)
  case Nil
  show ?case by (simp add: runStarts_def)
next
  case (Cons c cs)
  show ?case
    by (simp add: runStarts_Cons Cons.IH)
qed

lemma maximalRuns_countRuns: "maximalRuns s = countRuns True s"
proof -
  have "maximalRuns s = runStarts True s"
    unfolding maximalRuns_def runStarts_def
    by (intro arg_cong [where f = length] filter_cong) auto
  then show ?thesis
    by (simp add: runStarts_countRuns)
qed

lemma wordCount_example: "wordCount (js ''a  b   c'') = 3"
  by code_simp

lemma wordCount_is_spec: "wordCount text = wordCount_spec text"
proof (cases "trim text = []")
  case True
  then have "wordCount text = 0"
    by (simp add: wordCount_def)
  with True show ?thesis
    by (simp add: wordCount_spec_def)
next
  case False
  then show ?thesis
    by (simp add: wordCount_spec_def wordCount_countRuns maximalRuns_countRuns)
qed

text \<open>
  Claim C7.  \<open>wordCount\<close> is 0 when the trimmed input is empty and otherwise the number of
  maximal runs of non-white-space characters.  Hence white space added in front or at the
  end does not change the count, nor does white space added to a white-space run inside
  the text; and \<open>wordCount("a  b   c")\<close> is 3.
\<close>

theorem wordCount_counts_runs:
  assumes "list_all isWhiteSpace l" and "list_all isWhiteSpace r"
    and "list_all isWhiteSpace w" and "w \<noteq> []" and "list_all isWhiteSpace w'"
  shows "wordCount text = (if trim text = [] then 0 else maximalRuns text) \<and>
         wordCount text = wordCount_spec text \<and>
         wordCount (l @ text @ r) = wordCount text \<and>
         wordCount (a @ w @ w' @ b) = wordCount (a @ w @ b) \<and>
         wordCount (js ''a  b   c'') = 3"
proof -
  have spec: "wordCount text = wordCount_spec text"
    by (rule wordCount_is_spec)
  have pad: "wordCount (l @ text @ r) = wordCount text"
    using assms(1,2) by (simp add: wordCount_countRuns countRuns_pad)
  have last_ws: "isWhiteSpace (last (a @ w))"
    using assms(3,4) by (simp add: list_all_iff)
  have "countRuns True ((a @ w) @ w' @ b) = countRuns True (a @ w) + countRuns True (w' @ b)"
    using assms(4) last_ws by (simp only: countRuns_append [of True "a @ w"]) simp
  also have "countRuns True (w' @ b) = countRuns True b"
    using assms(5) by (simp add: countRuns_ws_prefix)
  also have "countRuns True (a @ w) + countRuns True b = countRuns True ((a @ w) @ b)"
    using assms(4) last_ws by (simp only: countRuns_append [of True "a @ w"]) simp
  finally have widen: "wordCount (a @ w @ w' @ b) = wordCount (a @ w @ b)"
    by (simp add: wordCount_countRuns)
  from spec pad widen wordCount_example show ?thesis
    by (simp add: wordCount_spec_def)
qed

theorem wordCount_counts_runs_witness:
  "list_all isWhiteSpace (js ''  '') \<and> list_all isWhiteSpace [0x0A] \<and>
   list_all isWhiteSpace (js '' '') \<and> js '' '' \<noteq> [] \<and> list_all isWhiteSpace [0x09, 0xA0] \<and>
   wordCount (js ''a  b   c'') = wordCount_spec (js ''a  b   c'') \<and>
   wordCount (js ''  '' @ js ''a  b   c'' @ [0x0A]) = 3 \<and>
   wordCount (js ''a'' @ js '' '' @ [0x09, 0xA0] @ js ''b c'') =
     wordCount (js ''a'' @ js '' '' @ js ''b c'')"
proof -
  have h: "list_all isWhiteSpace (js ''  '')" "list_all isWhiteSpace [0x0A]"
    "list_all isWhiteSpace (js '' '')" "js '' '' \<noteq> []" "list_all isWhiteSpace [0x09, 0xA0]"
    by (simp_all add: js_def isWhiteSpace_def)
  from wordCount_counts_runs [OF h, of "js ''a  b   c''" "js ''a''" "js ''b c''"] h
  show ?thesis
    by simp
qed

section \<open>Bounds on the marks of each criterion\<close>

lemma markFailures_points: "points (markFailures t) \<in> {0, 1, 3}"
  by (simp add: markFailures_def)

lemma markImpact_points: "points (markImpact t) \<in> {1, 2, 3}"
  by (simp add: markImpact_def)

lemma markRecommendations_points: "points (markRecommendations t a) \<in> {0, 1, 2}"
  by (simp add: markRecommendations_def)

lemma markLanguage_points: "points (markLanguage t) \<in> {0, 1}"
  by (simp add: markLanguage_def)

lemma markStructure_points: "points (markStructure t) \<in> {0, 1}"
  by (simp add: markStructure_def)

lemma markFailures_server_points: "fst (markFailures_server t) \<in> {0, 1, 3}"
  by (simp add: markFailures_server_def)

lemma markImpact_server_points: "fst (markImpact_server t) \<in> {1, 2, 3}"
  by (simp add: markImpact_server_def)

lemma rawScore_bounds: "1 \<le> rawScore a \<and> rawScore a \<le> 10"
proof -
  let ?t = "toLowerCase a"
  have "0 \<le> points (markFailures ?t) \<and> points (markFailures ?t) \<le> 3"
    using markFailures_points [of ?t] by auto
  moreover have "1 \<le> points (markImpact ?t) \<and> points (markImpact ?t) \<le> 3"
    using markImpact_points [of ?t] by auto
  moreover have "0 \<le> points (markRecommendations ?t a) \<and> points (markRecommendations ?t a) \<le> 2"
    using markRecommendations_points [of ?t a] by auto
  moreover have "0 \<le> points (markLanguage ?t) \<and> points (markLanguage ?t) \<le> 1"
    using markLanguage_points [of ?t] by auto
  moreover have "0 \<le> points (markStructure ?t) \<and> points (markStructure ?t) \<le> 1"
    using markStructure_points [of ?t] by auto
  ultimately show ?thesis
    by (simp add: rawScore_def Let_def)
qed

lemma rawScore_server_bounds: "1 \<le> rawScore_server a \<and> rawScore_server a \<le> 10"
proof -
  let ?t = "toLowerCase a"
  have "0 \<le> fst (markFailures_server ?t) \<and> fst (markFailures_server ?t) \<le> 3"
    using markFailures_server_points [of ?t] by auto
  moreover have "1 \<le> fst (markImpact_server ?t) \<and> fst (markImpact_server ?t) \<le> 3"
    using markImpact_server_points [of ?t] by auto
  moreover have "0 \<le> points (markRecommendations ?t a) \<and> points (markRecommendations ?t a) \<le> 2"
    using markRecommendations_points [of ?t a] by auto
  moreover have "0 \<le> points (markLanguage ?t) \<and> points (markLanguage ?t) \<le> 1"
    using markLanguage_points [of ?t] by auto
  moreover have "0 \<le> points (markStructure ?t) \<and> points (markStructure ?t) \<le> 1"
    using markStructure_points [of ?t] by auto
  ultimately show ?thesis
    by (simp add: rawScore_server_def Let_def)
qed

section \<open>Evaluating the example answers\<close>

lemma plain_wc: "wordCount plainAnswer = 50"
  by code_simp
lemma plain_detect:
  "themesFound (toLowerCase plainAnswer) = 0"
  "mentionsIndividuals (toLowerCase plainAnswer) = False"
  "mentionsHarm (toLowerCase plainAnswer) = False"
  "mentionsTrust (toLowerCase plainAnswer) = False"
  "mentionsFairness (toLowerCase plainAnswer) = False"
  "recHits (toLowerCase plainAnswer) = 0"
  "actionMarkers plainAnswer = 0"
  "usesTerms (toLowerCase plainAnswer) = False"
  "hasStructure (toLowerCase plainAnswer) = False"
  by code_simp+

lemma full_wc: "wordCount fullMarksAnswer = 60"
  by code_simp
lemma full_detect:
  "themesFound (toLowerCase fullMarksAnswer) = 3"
  "mentionsIndividuals (toLowerCase fullMarksAnswer) = True"
  "mentionsHarm (toLowerCase fullMarksAnswer) = True"
  "mentionsTrust (toLowerCase fullMarksAnswer) = True"
  "mentionsFairness (toLowerCase fullMarksAnswer) = True"
  "recHits (toLowerCase fullMarksAnswer) = 3"
  "actionMarkers fullMarksAnswer = 2"
  "usesTerms (toLowerCase fullMarksAnswer) = True"
  "hasStructure (toLowerCase fullMarksAnswer) = True"
  by code_simp+

lemma fairness_wc: "wordCount fairnessAnswer = 50"
  by code_simp

lemma fairness_detect:
  "themesFound (toLowerCase fairnessAnswer) = 1"
  "themesFound_server (toLowerCase fairnessAnswer) = 1"
  "mentionsIndividuals (toLowerCase fairnessAnswer) = False"
  "mentionsHarm (toLowerCase fairnessAnswer) = False"
  "mentionsTrust (toLowerCase fairnessAnswer) = False"
  "mentionsFairness (toLowerCase fairnessAnswer) = True"
  "recHits (toLowerCase fairnessAnswer) = 0"
  "actionMarkers fairnessAnswer = 0"
  "usesTerms (toLowerCase fairnessAnswer) = True"
  "hasStructure (toLowerCase fairnessAnswer) = False"
  by code_simp+



section \<open>The gate\<close>

lemma gateMessage_please: "includesStr gateMessage (js ''Please add to your answer.'')"
  by code_simp

lemma mark_gated: "wordCount a < 50 \<Longrightarrow> markEthicsResponse a = gatedResult (wordCount a)"
  by (simp add: markEthicsResponse_def Let_def)

lemma mark_server_gated:
  "wordCount a < 50 \<Longrightarrow> markEthicsResponse_server a = gatedResult_server (wordCount a)"
  by (simp add: markEthicsResponse_server_def Let_def)

text \<open>
  Claim C1.  Whenever the answer has fewer than 50 words, the marker returns the gated
  result: \<open>gated\<close> is true, the word count is reported, the message is the fixed
  instruction, which contains "Please add to your answer.", and score, feedback,
  strengths, tags, grid, framework and model answer are all absent.  Both copies of the
  marker do so.
\<close>

theorem gate_under_50:
  assumes "wordCount answerText < 50"
  shows "(let r = markEthicsResponse answerText in
           gated r \<and> wordCount' r = wordCount answerText \<and>
           message r = Some gateMessage \<and>
           includesStr gateMessage (js ''Please add to your answer.'') \<and>
           score r = None \<and> feedback r = None \<and> strengths r = None \<and> tags r = None \<and>
           grid r = None \<and> framework r = None \<and> modelAnswer r = None) \<and>
         (let r = markEthicsResponse_server answerText in
           gated r \<and> wordCount' r = wordCount answerText \<and>
           message r = Some gateMessage \<and>
           score r = None \<and> bands r = None \<and> feedback r = None \<and> strengths r = None \<and>
           tags r = None \<and> grid r = None \<and> framework r = None \<and> modelAnswer r = None)"
  using assms gateMessage_please
  by (simp add: mark_gated mark_server_gated gatedResult_def gatedResult_server_def)

text \<open>The empty answer is gated with word count 0.\<close>

lemma wordCount_empty: "wordCount (js '''') = 0"
  by (simp add: wordCount_def trim_def js_def)

theorem gate_under_50_witness:
  "wordCount (js '''') < 50 \<and> gated (markEthicsResponse (js '''')) \<and>
   wordCount' (markEthicsResponse (js '''')) = 0 \<and>
   message (markEthicsResponse (js '''')) = Some gateMessage \<and>
   modelAnswer (markEthicsResponse (js '''')) = None \<and>
   score (markEthicsResponse_server (js '''')) = None"
  using gate_under_50 [of "js ''''"] by (simp add: wordCount_empty Let_def)

section \<open>Ungated results\<close>

lemma clamp_rawScore: "max 0 (min 10 (rawScore a)) = rawScore a"
  using rawScore_bounds [of a] by simp

lemma clamp_rawScore_server: "max 0 (min 10 (rawScore_server a)) = rawScore_server a"
  using rawScore_server_bounds [of a] by simp

lemma mark_ungated:
  assumes "50 \<le> wordCount a"
  shows "markEthicsResponse a =
    \<lparr>gated = False, wordCount' = wordCount a, message = None, score = Some (rawScore a),
     bands = None,
     feedback = Some (buildFeedback
       (noteList (markFailures (toLowerCase a)) @ noteList (markImpact (toLowerCase a)) @
        noteList (markRecommendations (toLowerCase a) a) @ noteList (markLanguage (toLowerCase a)) @
        noteList (markStructure (toLowerCase a)) @ lengthNotes (wordCount a))),
     strengths = Some (take 3 (buildStrengths (toLowerCase a) a)),
     tags = Some (buildTags (toLowerCase a) a), grid = Some (buildGrid (toLowerCase a) a),
     framework = Some FRAMEWORK, modelAnswer = Some MODEL_ANSWER\<rparr>"
  using assms by (simp add: markEthicsResponse_def Let_def clamp_rawScore)

lemma mark_server_ungated:
  assumes "50 \<le> wordCount a"
  shows "markEthicsResponse_server a =
    \<lparr>gated = False, wordCount' = wordCount a, message = None,
     score = Some (rawScore_server a), bands = None,
     feedback = Some (buildFeedback
       (snd (markFailures_server (toLowerCase a)) @ snd (markImpact_server (toLowerCase a)) @
        noteList (markRecommendations (toLowerCase a) a) @ noteList (markLanguage (toLowerCase a)) @
        noteList (markStructure (toLowerCase a)) @ lengthNotes (wordCount a))),
     strengths = None, tags = None, grid = None, framework = None,
     modelAnswer = Some MODEL_ANSWER\<rparr>"
  using assms by (simp add: markEthicsResponse_server_def Let_def clamp_rawScore_server)

text \<open>
  Claim C2, as amended.  Whenever the answer has at least 50 words, both copies of the
  marker return a result that is not gated, whose score is an integer from 0 to 10 and
  whose model answer is the fixed text \<open>MODEL_ANSWER\<close>.  The copy in
  \<open>src/unnamed/part_001\<close> also returns the fixed table \<open>FRAMEWORK\<close>; the copy in
  \<open>src/server.js\<close> has no such table and its result has no framework.
\<close>

theorem ungated_result:
  assumes "50 \<le> wordCount answerText"
  shows "(let r = markEthicsResponse answerText in
           \<not> gated r \<and> (\<exists>s. score r = Some s \<and> 0 \<le> s \<and> s \<le> 10) \<and>
           modelAnswer r = Some MODEL_ANSWER \<and> framework r = Some FRAMEWORK) \<and>
         (let r = markEthicsResponse_server answerText in
           \<not> gated r \<and> (\<exists>s. score r = Some s \<and> 0 \<le> s \<and> s \<le> 10) \<and>
           modelAnswer r = Some MODEL_ANSWER \<and> framework r = None)"
  using rawScore_bounds [of answerText] rawScore_server_bounds [of answerText]
  by (simp add: mark_ungated [OF assms] mark_server_ungated [OF assms])

theorem ungated_result_witness:
  "50 \<le> wordCount plainAnswer \<and> \<not> gated (markEthicsResponse plainAnswer) \<and>
   (\<exists>s. score (markEthicsResponse plainAnswer) = Some s \<and> 0 \<le> s \<and> s \<le> 10) \<and>
   modelAnswer (markEthicsResponse plainAnswer) = Some MODEL_ANSWER \<and>
   framework (markEthicsResponse plainAnswer) = Some FRAMEWORK"
proof -
  have h: "50 \<le> wordCount plainAnswer"
    by (simp add: plain_wc)
  from ungated_result [OF h] h show ?thesis
    by (simp add: Let_def)
qed

text \<open>
  The result of \<open>src/server.js\<close> for the fifty-word answer \<open>plainAnswer\<close> is ungated and
  has no framework.
\<close>

theorem server_result_has_no_framework:
  "50 \<le> wordCount plainAnswer \<and>
   \<not> gated (markEthicsResponse_server plainAnswer) \<and>
   framework (markEthicsResponse_server plainAnswer) = None"
proof -
  have h: "50 \<le> wordCount plainAnswer"
    by (simp add: plain_wc)
  show ?thesis
    by (simp add: mark_server_ungated [OF h] h)
qed

text \<open>
  Claim C6.  For an ungated answer the sum of the five criterion marks lies between 1 and
  10, so the clamp \<open>Math.max(0, Math.min(10, score))\<close> leaves it unchanged and the score
  returned is the sum itself.  This holds in both copies.
\<close>

theorem raw_sum_in_range:
  assumes "50 \<le> wordCount answerText"
  shows "1 \<le> rawScore answerText \<and> rawScore answerText \<le> 10 \<and>
         max 0 (min 10 (rawScore answerText)) = rawScore answerText \<and>
         score (markEthicsResponse answerText) = Some (rawScore answerText) \<and>
         1 \<le> rawScore_server answerText \<and> rawScore_server answerText \<le> 10 \<and>
         max 0 (min 10 (rawScore_server answerText)) = rawScore_server answerText \<and>
         score (markEthicsResponse_server answerText) = Some (rawScore_server answerText)"
  using rawScore_bounds [of answerText] rawScore_server_bounds [of answerText]
  by (simp add: mark_ungated [OF assms] mark_server_ungated [OF assms])

lemma plain_rawScore: "rawScore plainAnswer = 1"
  by (simp add: rawScore_def Let_def markFailures_def markImpact_def markRecommendations_def
      markLanguage_def markStructure_def plain_detect)

theorem raw_sum_in_range_witness:
  "50 \<le> wordCount plainAnswer \<and> rawScore plainAnswer = 1 \<and>
   score (markEthicsResponse plainAnswer) = Some 1"
proof -
  have h: "50 \<le> wordCount plainAnswer"
    by (simp add: plain_wc)
  from raw_sum_in_range [OF h] h show ?thesis
    by (simp add: plain_rawScore)
qed

section \<open>The impact criterion\<close>

text \<open>
  The copy in \<open>src/unnamed/part_001\<close> follows the rule of the specification.  For an
  ungated answer its impact criterion gives 3 marks when individuals and harm are both
  mentioned and trust or fairness is, 2 marks when instead individuals and harm are both
  mentioned or trust or fairness is, and otherwise 1 mark together with its improvement
  note; so it always gives at least 1 mark, and that amount is what enters the returned
  score.
\<close>

theorem impact_rule:
  assumes "50 \<le> wordCount answerText"
  shows "(let t = toLowerCase answerText;
              both = (mentionsIndividuals t \<and> mentionsHarm t);
              i = points (markImpact t)
          in i = (if both \<and> (mentionsTrust t \<or> mentionsFairness t) then 3
                  else if both \<or> mentionsTrust t \<or> mentionsFairness t then 2
                  else 1) \<and>
             noteList (markImpact t) =
               (if i = 1 then [
                  js ''Impact: Explain why the failures mattered (harm to people and/or '' @
                  js ''trust/fairness).''] else []) \<and>
             1 \<le> i \<and>
             score (markEthicsResponse answerText) =
               Some (points (markFailures t) + i + points (markRecommendations t answerText) +
                     points (markLanguage t) + points (markStructure t)))"
  by (simp add: mark_ungated [OF assms] Let_def rawScore_def markImpact_def js_def)

lemma full_impact: "points (markImpact (toLowerCase fullMarksAnswer)) = 3"
  by (simp add: markImpact_def full_detect)

theorem impact_rule_witness:
  "50 \<le> wordCount fullMarksAnswer \<and>
   points (markImpact (toLowerCase fullMarksAnswer)) = 3 \<and>
   noteList (markImpact (toLowerCase fullMarksAnswer)) = [] \<and>
   score (markEthicsResponse fullMarksAnswer) =
     Some (points (markFailures (toLowerCase fullMarksAnswer)) + 3 +
           points (markRecommendations (toLowerCase fullMarksAnswer) fullMarksAnswer) +
           points (markLanguage (toLowerCase fullMarksAnswer)) +
           points (markStructure (toLowerCase fullMarksAnswer)))"
proof -
  have h: "50 \<le> wordCount fullMarksAnswer"
    by (simp add: full_wc)
  from impact_rule [OF h] h show ?thesis
    by (simp add: Let_def full_impact)
qed

text \<open>
  Claim C3.  For every ungated answer the impact criterion is to give 3 marks when
  individuals and harm are both mentioned and trust or fairness is, 2 marks when instead
  individuals and harm are both mentioned or trust or fairness is, and 1 mark with a note
  otherwise.  The copy in \<open>src/server.js\<close> tests fairness in its three-mark branch only:
  on \<open>fairnessAnswer\<close>, fifty words that mention fairness and neither trust nor
  individuals with harm, it gives 1 mark for impact where the rule and the other copy
  give 2, and the two scores are 3 and 4.
\<close>

theorem server_impact_ignores_fairness:
  "50 \<le> wordCount fairnessAnswer \<and>
   mentionsFairness (toLowerCase fairnessAnswer) \<and>
   fst (markImpact_server (toLowerCase fairnessAnswer)) = 1 \<and>
   points (markImpact (toLowerCase fairnessAnswer)) = 2 \<and>
   score (markEthicsResponse_server fairnessAnswer) = Some 3 \<and>
   score (markEthicsResponse fairnessAnswer) = Some 4"
proof -
  have h: "50 \<le> wordCount fairnessAnswer"
    by (simp add: fairness_wc)
  have a: "rawScore fairnessAnswer = 4"
    by (simp add: rawScore_def Let_def markFailures_def markImpact_def markRecommendations_def
        markLanguage_def markStructure_def fairness_detect)
  have b: "rawScore_server fairnessAnswer = 3"
    by (simp add: rawScore_server_def Let_def markFailures_server_def markImpact_server_def
        markRecommendations_def markLanguage_def markStructure_def fairness_detect)
  show ?thesis
    by (simp add: mark_ungated [OF h] mark_server_ungated [OF h] a b h
        markImpact_def markImpact_server_def fairness_detect)
qed

section \<open>The structure criterion\<close>



section \<open>Legal awareness\<close>

lemma hasAny_mono:
  assumes "set xs \<subseteq> set ys" and "hasAny t xs"
  shows "hasAny t ys"
  using assms by (auto simp: hasAny_def Let_def list_ex_iff)

lemma legal_triggers_are_terms:
  "hasAny t (map js [''consent'', ''privacy'', ''data protection'']) \<Longrightarrow> usesTerms t"
  unfolding usesTerms_def by (erule hasAny_mono [rotated]) simp

lemma status_distinct:
  "js ''ok'' \<noteq> js ''mid''" "js ''bad'' \<noteq> js ''mid''"
  "[0x2713] @ js '' Secure'' \<noteq> [0x25D0] @ js '' Developing''"
  "[0x2717] @ js '' Missing'' \<noteq> [0x25D0] @ js '' Developing''"
  by (simp_all add: js_def)

text \<open>
  Claim C10.  For an ungated answer the tag "Legal awareness" never has status "mid" and
  the legal row of the grid is never the Developing marker: each of the triggers
  "consent", "privacy", "data protection" of the intermediate branch is a term of the
  terminology list, so that branch is only reached when its test is false.
\<close>

theorem legal_never_developing:
  assumes "50 \<le> wordCount answerText"
  shows "(let t = toLowerCase answerText; r = markEthicsResponse answerText
          in (\<exists>tg g. tags r = Some tg \<and> grid r = Some g \<and>
                name (tg ! 1) = js ''Legal awareness'' \<and>
                status (tg ! 1) \<noteq> js ''mid'' \<and>
                legal g \<noteq> [0x25D0] @ js '' Developing'') \<and>
             (hasAny t (map js [''consent'', ''privacy'', ''data protection'']) \<longrightarrow> usesTerms t))"
proof -
  let ?t = "toLowerCase answerText"
  have imp: "hasAny ?t (map js [''consent'', ''privacy'', ''data protection'']) \<longrightarrow> usesTerms ?t"
    using legal_triggers_are_terms by blast
  show ?thesis
  proof (cases "usesTerms ?t")
    case True
    then show ?thesis
      using status_distinct
      by (simp add: mark_ungated [OF assms] Let_def buildTags_def buildGrid_def markLanguage_def
          tagStatus_def statusFromLevel_def)
  next
    case False
    with imp have "\<not> hasAny ?t (map js [''consent'', ''privacy'', ''data protection''])"
      by blast
    with False show ?thesis
      using status_distinct
      by (simp add: mark_ungated [OF assms] Let_def buildTags_def buildGrid_def markLanguage_def
          tagStatus_def statusFromLevel_def)
  qed
qed

theorem legal_never_developing_witness:
  "50 \<le> wordCount plainAnswer \<and>
   (\<exists>tg g. tags (markEthicsResponse plainAnswer) = Some tg \<and>
      grid (markEthicsResponse plainAnswer) = Some g \<and>
      name (tg ! 1) = js ''Legal awareness'' \<and>
      status (tg ! 1) \<noteq> js ''mid'' \<and>
      legal g \<noteq> [0x25D0] @ js '' Developing'')"
proof -
  have h: "50 \<le> wordCount plainAnswer"
    by (simp add: plain_wc)
  from legal_never_developing [OF h] h show ?thesis
    by (simp add: Let_def)
qed

section \<open>Substrings, lower case and appended text\<close>

lemma includesStr_sublist: "includesStr t n \<longleftrightarrow> sublist n t"
  by (induction t) (simp_all add: sublist_Cons_right)

lemma includesStr_append_left:
  assumes "includesStr s n"
  shows "includesStr (t @ s) n"
proof -
  from assms obtain ps ss where "s = ps @ n @ ss"
    by (auto simp: includesStr_sublist sublist_def)
  then have "t @ s = (t @ ps) @ n @ ss"
    by simp
  then show ?thesis
    unfolding includesStr_sublist sublist_def by blast
qed

lemma toLowerCase_append: "toLowerCase (t @ s) = toLowerCase t @ toLowerCase s"
  by (simp add: toLowerCase_def)

lemma lowerUnit_idem: "lowerUnit (lowerUnit c) = lowerUnit c"
  by (simp add: lowerUnit_def)

lemma toLowerCase_idem: "toLowerCase (toLowerCase s) = toLowerCase s"
  by (simp add: toLowerCase_def lowerUnit_idem)

lemma hasAny_lowered: "hasAny (toLowerCase s) ns \<longleftrightarrow> list_ex (includesStr (toLowerCase s)) ns"
  by (simp add: hasAny_def toLowerCase_idem)

lemma hasAny_append_left:
  assumes "hasAny (toLowerCase s) ns"
  shows "hasAny (toLowerCase (t @ s)) ns"
proof -
  from assms obtain n where n: "n \<in> set ns" "includesStr (toLowerCase s) n"
    by (auto simp: hasAny_lowered list_ex_iff)
  from n(2) have "includesStr (toLowerCase (t @ s)) n"
    by (simp add: toLowerCase_append includesStr_append_left)
  with n(1) show ?thesis
    unfolding hasAny_lowered list_ex_iff by blast
qed

section \<open>The failures criterion under appended text\<close>

lemma foldl_count:
  "foldl (\<lambda>n x. if P x then n + 1 else n) k xs = k + length (filter P xs)"
  by (induction xs arbitrary: k) auto

lemma themesFound_count:
  "themesFound t = length (filter (\<lambda>th. hasAny t (hits th)) FAILURE_THEMES)"
  by (simp add: themesFound_def foldl_count)

lemma recHits_count: "recHits t = length (filter (hasAny t) REC_THEMES)"
  by (simp add: recHits_def foldl_count)

lemma length_filter_mono:
  "(\<And>x. x \<in> set xs \<Longrightarrow> P x \<Longrightarrow> Q x) \<Longrightarrow> length (filter P xs) \<le> length (filter Q xs)"
  by (induction xs) auto

lemma themesFound_append_left:
  "themesFound (toLowerCase s) \<le> themesFound (toLowerCase (t @ s))"
  unfolding themesFound_count by (rule length_filter_mono) (rule hasAny_append_left)

text \<open>
  Claim C8.  When an answer matches none of the six failure themes and a sentence that by
  itself triggers exactly two of them is appended, the marks of the failures criterion
  rise from 0 to 3; and if both texts are ungated and the other four criteria give the
  same marks before and after, the score rises by exactly 3.
\<close>

theorem two_new_themes_raise_failures:
  assumes "themesFound (toLowerCase text) = 0"
    and "themesFound (toLowerCase sentence) = 2"
  shows "(let t = toLowerCase text; t' = toLowerCase (text @ sentence)
          in points (markFailures t) = 0 \<and> points (markFailures t') = 3 \<and>
             (50 \<le> wordCount text \<and> 50 \<le> wordCount (text @ sentence) \<and>
              points (markImpact t') = points (markImpact t) \<and>
              points (markRecommendations t' (text @ sentence)) =
                points (markRecommendations t text) \<and>
              points (markLanguage t') = points (markLanguage t) \<and>
              points (markStructure t') = points (markStructure t) \<longrightarrow>
              (\<exists>s. score (markEthicsResponse text) = Some s \<and>
                   score (markEthicsResponse (text @ sentence)) = Some (s + 3))))"
proof -
  have two: "2 \<le> themesFound (toLowerCase (text @ sentence))"
    using themesFound_append_left [of sentence "text"] assms(2) by simp
  have before: "points (markFailures (toLowerCase text)) = 0"
    using assms(1) by (simp add: markFailures_def)
  have after: "points (markFailures (toLowerCase (text @ sentence))) = 3"
    using two by (simp add: markFailures_def)
  show ?thesis
    using before after by (auto simp: Let_def mark_ungated rawScore_def)
qed

lemma appended_wc: "wordCount (plainAnswer @ twoThemeSentence) = 52"
  by code_simp

lemma sentence_themes: "themesFound (toLowerCase twoThemeSentence) = 2"
  by code_simp

lemma appended_detect:
  "mentionsIndividuals (toLowerCase (plainAnswer @ twoThemeSentence)) = False"
  "mentionsHarm (toLowerCase (plainAnswer @ twoThemeSentence)) = False"
  "mentionsTrust (toLowerCase (plainAnswer @ twoThemeSentence)) = False"
  "mentionsFairness (toLowerCase (plainAnswer @ twoThemeSentence)) = False"
  "recHits (toLowerCase (plainAnswer @ twoThemeSentence)) = 0"
  "actionMarkers (plainAnswer @ twoThemeSentence) = 0"
  "usesTerms (toLowerCase (plainAnswer @ twoThemeSentence)) = False"
  "hasStructure (toLowerCase (plainAnswer @ twoThemeSentence)) = False"
  by code_simp+

theorem two_new_themes_raise_failures_witness:
  "themesFound (toLowerCase plainAnswer) = 0 \<and>
   themesFound (toLowerCase twoThemeSentence) = 2 \<and>
   points (markFailures (toLowerCase plainAnswer)) = 0 \<and>
   points (markFailures (toLowerCase (plainAnswer @ twoThemeSentence))) = 3 \<and>
   50 \<le> wordCount plainAnswer \<and> 50 \<le> wordCount (plainAnswer @ twoThemeSentence) \<and>
   score (markEthicsResponse plainAnswer) = Some 1 \<and>
   score (markEthicsResponse (plainAnswer @ twoThemeSentence)) = Some 4"
proof -
  have h: "themesFound (toLowerCase plainAnswer) = 0"
    "themesFound (toLowerCase twoThemeSentence) = 2"
    by (simp_all add: plain_detect sentence_themes)
  have same:
    "points (markImpact (toLowerCase (plainAnswer @ twoThemeSentence))) =
       points (markImpact (toLowerCase plainAnswer))"
    "points (markRecommendations (toLowerCase (plainAnswer @ twoThemeSentence))
        (plainAnswer @ twoThemeSentence)) =
       points (markRecommendations (toLowerCase plainAnswer) plainAnswer)"
    "points (markLanguage (toLowerCase (plainAnswer @ twoThemeSentence))) =
       points (markLanguage (toLowerCase plainAnswer))"
    "points (markStructure (toLowerCase (plainAnswer @ twoThemeSentence))) =
       points (markStructure (toLowerCase plainAnswer))"
    by (simp_all add: markImpact_def markRecommendations_def markLanguage_def markStructure_def
        plain_detect appended_detect)
  have s1: "score (markEthicsResponse plainAnswer) = Some 1"
    by (simp add: mark_ungated plain_wc plain_rawScore)
  from two_new_themes_raise_failures [OF h] h same s1 show ?thesis
    by (simp add: Let_def plain_wc appended_wc)
qed

section \<open>The full-marks scenario\<close>

lemma includesStr_lower:
  "includesStr s n \<Longrightarrow> includesStr (toLowerCase s) (toLowerCase n)"
  unfolding includesStr_sublist toLowerCase_def by (rule map_mono_sublist)

lemma includesStr_trans:
  "includesStr t m \<Longrightarrow> includesStr m n \<Longrightarrow> includesStr t n"
  unfolding includesStr_sublist by (rule sublist_order.order.trans)

lemma hasAny_from_raw:
  assumes "includesStr answerText n" and "toLowerCase n \<in> set needles"
  shows "hasAny (toLowerCase answerText) needles"
proof -
  have "includesStr (toLowerCase answerText) (toLowerCase n)"
    using assms(1) by (rule includesStr_lower)
  with assms(2) show ?thesis
    unfolding hasAny_lowered list_ex_iff by blast
qed

lemma resident_in_residents: "includesStr (js ''residents'') (js ''resident'')"
  by code_simp

lemma scenario_detect:
  assumes "list_all (includesStr answerText) scenarioKeywords"
  shows "2 \<le> themesFound (toLowerCase answerText)"
    and "mentionsIndividuals (toLowerCase answerText)"
    and "mentionsTrust (toLowerCase answerText)"
    and "mentionsFairness (toLowerCase answerText)"
    and "2 \<le> recHits (toLowerCase answerText)"
    and "usesTerms (toLowerCase answerText)"
    and "hasStructure (toLowerCase answerText)"
proof -
  let ?t = "toLowerCase answerText"
  have k: "includesStr answerText (js ''consent'')" "includesStr answerText (js ''bias'')"
    "includesStr answerText (js ''fairness'')" "includesStr answerText (js ''trust'')"
    "includesStr answerText (js ''residents'')" "includesStr answerText (js ''DPIA'')"
    "includesStr answerText (js ''1)'')"
    using assms by (simp_all add: scenarioKeywords_def)
  have r: "includesStr answerText (js ''resident'')"
    using k(5) resident_in_residents by (rule includesStr_trans)
  have f1: "hasAny ?t (map js [''consent'', ''transparent'', ''transparency'', ''informed'',
      ''notice'', ''public informed''])"
    by (rule hasAny_from_raw [OF k(1)]) (simp add: toLowerCase_def js_def lowerUnit_def)
  have f3: "hasAny ?t (map js [''bias'', ''biased'', ''fair'', ''fairness'', ''discrimin'', ''equal''])"
    by (rule hasAny_from_raw [OF k(2)]) (simp add: toLowerCase_def js_def lowerUnit_def)
  show "2 \<le> themesFound ?t"
    using f1 f3 by (simp add: themesFound_count FAILURE_THEMES_def)
  show "mentionsIndividuals ?t"
    unfolding mentionsIndividuals_def
    by (rule hasAny_from_raw [OF r]) (simp add: toLowerCase_def js_def lowerUnit_def)
  show "mentionsTrust ?t"
    unfolding mentionsTrust_def
    by (rule hasAny_from_raw [OF k(4)]) (simp add: toLowerCase_def js_def lowerUnit_def)
  show "mentionsFairness ?t"
    unfolding mentionsFairness_def
    by (rule hasAny_from_raw [OF k(3)]) (simp add: toLowerCase_def js_def lowerUnit_def)
  have r1: "hasAny ?t (map js [''dpia'', ''impact assessment''])"
    by (rule hasAny_from_raw [OF k(6)]) (simp add: toLowerCase_def js_def lowerUnit_def)
  have r2: "hasAny ?t (map js [''consent'', ''transparen'', ''public notice''])"
    by (rule hasAny_from_raw [OF k(1)]) (simp add: toLowerCase_def js_def lowerUnit_def)
  show "2 \<le> recHits ?t"
    using r1 r2 by (simp add: recHits_count REC_THEMES_def)
  show "usesTerms ?t"
    unfolding usesTerms_def
    by (rule hasAny_from_raw [OF k(1)]) (simp add: toLowerCase_def js_def lowerUnit_def)
  have "hasAny ?t (map js [''1)'', ''2)'', ''3)''])"
    by (rule hasAny_from_raw [OF k(7)]) (simp add: toLowerCase_def js_def lowerUnit_def)
  then show "hasStructure ?t"
    by (simp add: hasStructure_def)
qed

text \<open>
  Claim C4, as amended.  Every 60-word answer that contains the substrings "consent",
  "transparency", "bias", "fairness", "trust", "residents", "DPIA", "action", "should",
  "1)", "2)" and "3)", and that in addition mentions harm (one of the harm triggers, in
  any letter case) and has at least two whole-word action markers, is marked with
  \<open>gated = false\<close>, score 10, three strengths, status "ok" for all five tags and the
  fixed model answer.
\<close>

theorem scenario_full_marks:
  assumes "wordCount answerText = 60"
    and "list_all (includesStr answerText) scenarioKeywords"
    and "mentionsHarm (toLowerCase answerText)"
    and "2 \<le> actionMarkers answerText"
  shows "(let r = markEthicsResponse answerText
          in \<not> gated r \<and> score r = Some 10 \<and>
             map_option length (strengths r) = Some 3 \<and>
             map_option (map name) (tags r) =
               Some (map js [''Ethical awareness'', ''Legal awareness'', ''Impact evaluation'',
                             ''Practical judgement'', ''Structure & clarity'']) \<and>
             map_option (map status) (tags r) =
               Some (map js [''ok'', ''ok'', ''ok'', ''ok'', ''ok'']) \<and>
             modelAnswer r = Some MODEL_ANSWER)"
proof -
  let ?t = "toLowerCase answerText"
  have h: "50 \<le> wordCount answerText"
    using assms(1) by simp
  note d = scenario_detect [OF assms(2)]
  have f: "markFailures ?t = \<lparr>points = 3, level = 2, noteList = []\<rparr>"
    using d(1) by (simp add: markFailures_def)
  have i: "markImpact ?t = \<lparr>points = 3, level = 2, noteList = []\<rparr>"
    using d(2,3) assms(3) by (simp add: markImpact_def)
  have rc: "markRecommendations ?t answerText = \<lparr>points = 2, level = 2, noteList = []\<rparr>"
    using d(5) assms(4) by (simp add: markRecommendations_def)
  have l: "markLanguage ?t = \<lparr>points = 1, level = 2, noteList = []\<rparr>"
    using d(6) by (simp add: markLanguage_def)
  have s: "markStructure ?t = \<lparr>points = 1, level = 2, noteList = []\<rparr>"
    using d(7) by (simp add: markStructure_def)
  have sc: "rawScore answerText = 10"
    by (simp add: rawScore_def Let_def f i rc l s)
  have st: "length (take 3 (buildStrengths ?t answerText)) = 3"
    using d(6,7) by (simp add: buildStrengths_def f i rc)
  have tg: "map status (buildTags ?t answerText) = map js [''ok'', ''ok'', ''ok'', ''ok'', ''ok'']"
    by (simp add: buildTags_def Let_def f i rc l s tagStatus_def)
  have tn: "map name (buildTags ?t answerText) =
      map js [''Ethical awareness'', ''Legal awareness'', ''Impact evaluation'',
              ''Practical judgement'', ''Structure & clarity'']"
    by (simp add: buildTags_def Let_def)
  show ?thesis
    using st tg tn by (simp add: mark_ungated [OF h] Let_def sc)
qed

lemma full_keywords: "list_all (includesStr fullMarksAnswer) scenarioKeywords"
  by code_simp

theorem scenario_full_marks_witness:
  "wordCount fullMarksAnswer = 60 \<and>
   list_all (includesStr fullMarksAnswer) scenarioKeywords \<and>
   mentionsHarm (toLowerCase fullMarksAnswer) \<and>
   2 \<le> actionMarkers fullMarksAnswer \<and>
   \<not> gated (markEthicsResponse fullMarksAnswer) \<and>
   score (markEthicsResponse fullMarksAnswer) = Some 10 \<and>
   map_option length (strengths (markEthicsResponse fullMarksAnswer)) = Some 3 \<and>
   map_option (map status) (tags (markEthicsResponse fullMarksAnswer)) =
     Some (map js [''ok'', ''ok'', ''ok'', ''ok'', ''ok'']) \<and>
   modelAnswer (markEthicsResponse fullMarksAnswer) = Some MODEL_ANSWER"
proof -
  have h: "wordCount fullMarksAnswer = 60"
    "list_all (includesStr fullMarksAnswer) scenarioKeywords"
    "mentionsHarm (toLowerCase fullMarksAnswer)"
    "2 \<le> actionMarkers fullMarksAnswer"
    by (simp_all add: full_wc full_keywords full_detect)
  from scenario_full_marks [OF h] h show ?thesis
    by (simp add: Let_def)
qed

text \<open>
  Without a word about harm the scenario, as the specification states it, is marked 9:
  \<open>scenarioAnswer\<close> has 60 words and all the keywords, with \<open>action\<close> and \<open>should\<close> as
  whole words, but the impact criterion gives 2 marks and its tag is "mid".
\<close>

lemma scenario_wc: "wordCount scenarioAnswer = 60"
  by code_simp

lemma scenario_keywords: "list_all (includesStr scenarioAnswer) scenarioKeywords"
  by code_simp

lemma scenario_eval:
  "mentionsHarm (toLowerCase scenarioAnswer) = False"
  "actionMarkers scenarioAnswer = 2"
  by code_simp+

theorem scenario_scores_nine:
  "wordCount scenarioAnswer = 60 \<and>
   list_all (includesStr scenarioAnswer) scenarioKeywords \<and>
   score (markEthicsResponse scenarioAnswer) = Some 9 \<and>
   map_option (map status) (tags (markEthicsResponse scenarioAnswer)) =
     Some (map js [''ok'', ''ok'', ''mid'', ''ok'', ''ok''])"
proof -
  let ?t = "toLowerCase scenarioAnswer"
  have h: "50 \<le> wordCount scenarioAnswer"
    by (simp add: scenario_wc)
  note d = scenario_detect [OF scenario_keywords]
  have f: "markFailures ?t = \<lparr>points = 3, level = 2, noteList = []\<rparr>"
    using d(1) by (simp add: markFailures_def)
  have i: "markImpact ?t = \<lparr>points = 2, level = 1, noteList = []\<rparr>"
    using d(3) by (simp add: markImpact_def scenario_eval)
  have rc: "markRecommendations ?t scenarioAnswer = \<lparr>points = 2, level = 2, noteList = []\<rparr>"
    using d(5) by (simp add: markRecommendations_def scenario_eval)
  have l: "markLanguage ?t = \<lparr>points = 1, level = 2, noteList = []\<rparr>"
    using d(6) by (simp add: markLanguage_def)
  have s: "markStructure ?t = \<lparr>points = 1, level = 2, noteList = []\<rparr>"
    using d(7) by (simp add: markStructure_def)
  have sc: "rawScore scenarioAnswer = 9"
    by (simp add: rawScore_def Let_def f i rc l s)
  have tg: "map status (buildTags ?t scenarioAnswer) = map js [''ok'', ''ok'', ''mid'', ''ok'', ''ok'']"
    by (simp add: buildTags_def Let_def f i rc l s tagStatus_def)
  show ?thesis
    using tg by (simp add: mark_ungated [OF h] sc scenario_wc scenario_keywords)
qed

text \<open>
  The keywords \<open>action\<close> and \<open>should\<close> inside longer words are no action markers:
  \<open>substringAnswer\<close> mentions harm and contains every keyword as a substring, yet the
  recommendations criterion gives 1 mark.
\<close>

lemma substring_wc: "wordCount substringAnswer = 60"
  by code_simp

lemma substring_keywords: "list_all (includesStr substringAnswer) scenarioKeywords"
  by code_simp

lemma substring_eval:
  "mentionsHarm (toLowerCase substringAnswer) = True"
  "actionMarkers substringAnswer = 0"
  by code_simp+

lemma substring_scores_nine:
  "score (markEthicsResponse substringAnswer) = Some 9 \<and>
   map_option (map status) (tags (markEthicsResponse substringAnswer)) =
     Some (map js [''ok'', ''ok'', ''ok'', ''mid'', ''ok''])"
proof -
  let ?t = "toLowerCase substringAnswer"
  have h: "50 \<le> wordCount substringAnswer"
    by (simp add: substring_wc)
  note d = scenario_detect [OF substring_keywords]
  have f: "markFailures ?t = \<lparr>points = 3, level = 2, noteList = []\<rparr>"
    using d(1) by (simp add: markFailures_def)
  have i: "markImpact ?t = \<lparr>points = 3, level = 2, noteList = []\<rparr>"
    using d(2,3) by (simp add: markImpact_def substring_eval)
  have rc: "markRecommendations ?t substringAnswer = \<lparr>points = 1, level = 1, noteList = [
      js ''Recommendations: Give two practical actions the council should take '' @
      js ''(not vague).'']\<rparr>"
    using d(5) by (simp add: markRecommendations_def substring_eval js_def)
  have l: "markLanguage ?t = \<lparr>points = 1, level = 2, noteList = []\<rparr>"
    using d(6) by (simp add: markLanguage_def)
  have s: "markStructure ?t = \<lparr>points = 1, level = 2, noteList = []\<rparr>"
    using d(7) by (simp add: markStructure_def)
  have sc: "rawScore substringAnswer = 9"
    by (simp add: rawScore_def Let_def f i rc l s)
  have tg: "map status (buildTags ?t substringAnswer) = map js [''ok'', ''ok'', ''ok'', ''mid'', ''ok'']"
    by (simp add: buildTags_def Let_def f i rc l s tagStatus_def)
  show ?thesis
    using tg by (simp add: mark_ungated [OF h] sc)
qed

section \<open>The two copies of the marker\<close>











end
